theory Spec2Isabelle
  imports Main "HOL-Library.Log_Nat"
begin

section \<open>The tool tester engine (src/tools/tool\_tester/engine.py)\<close>

text \<open>
  A shallow embedding of \<^verbatim>\<open>ToolTesterEngine\<close>. The engine object is a record holding
  \<^verbatim>\<open>self.test_results\<close> together with everything the engine writes: every document
  written to the status file, every results file, and the trace of the questions asked
  to the world outside (file-existence probes and child processes). The world answers
  through an environment record; an answer may depend on the whole trace so far, so the
  file system is free to change while a run is under way.

  The logger is write-only and is left out; so is the \<^verbatim>\<open>timestamp\<close> field of the
  status document, which comes from the clock. Writing the status file and the results
  file is taken to succeed. The constructor's reading of the engine's own configuration
  file and \<^verbatim>\<open>main\<close> stay outside: a run is \<^verbatim>\<open>run\<close> applied to a freshly built engine.
\<close>

subsection \<open>Python values, exceptions and text\<close>

text \<open>
  A field of a manifest entry is a JSON value. \<open>POther\<close> stands for every value that is
  neither null, a boolean, an integer nor a string (a float, a list, an object), carried
  with the name of its type and the text that \<^verbatim>\<open>str()\<close> gives for it: such a value is
  never equal to a string and is not accepted by \<^verbatim>\<open>Path()\<close>.
\<close>

datatype pyval = PNone | PBool bool | PInt int | PStr string | POther string string

datatype py_exc = KeyError string | TypeError string | OtherError string

text \<open>\<^verbatim>\<open>str(e)\<close>: a \<^verbatim>\<open>KeyError\<close> prints the repr of its key.\<close>

fun exc_str :: "py_exc \<Rightarrow> string" where
  "exc_str (KeyError k) = [CHR 0x27] @ k @ [CHR 0x27]"
| "exc_str (TypeError m) = m"
| "exc_str (OtherError m) = m"

fun digits :: "nat \<Rightarrow> string" where
  "digits n = (if n < 10 then [''0123456789'' ! n]
               else digits (n div 10) @ [''0123456789'' ! (n mod 10)])"

declare digits.simps [simp del]

definition str_int :: "int \<Rightarrow> string" where
  "str_int i = (if i < 0 then ''-'' @ digits (nat (- i)) else digits (nat i))"

fun py_str :: "pyval \<Rightarrow> string" where
  "py_str PNone = ''None''"
| "py_str (PBool b) = (if b then ''True'' else ''False'')"
| "py_str (PInt i) = str_int i"
| "py_str (PStr s) = s"
| "py_str (POther t s) = s"

fun type_name :: "pyval \<Rightarrow> string" where
  "type_name PNone = ''NoneType''"
| "type_name (PBool b) = ''bool''"
| "type_name (PInt i) = ''int''"
| "type_name (PStr s) = ''str''"
| "type_name (POther t s) = t"

subsection \<open>Manifest entries and paths\<close>

text \<open>
  A manifest entry is a dict, given by the list of its items (a key is looked up at its first
  item); \<^verbatim>\<open>d[k]\<close> raises \<^verbatim>\<open>KeyError\<close> on a missing key.
\<close>

type_synonym tool_info = "(string \<times> pyval) list"

definition getitem :: "tool_info \<Rightarrow> string \<Rightarrow> py_exc + pyval" where
  "getitem d k = (case map_of d k of None \<Rightarrow> Inl (KeyError k) | Some v \<Rightarrow> Inr v)"

text \<open>
  \<^verbatim>\<open>pathlib.Path\<close>: built from a string, extended with \<^verbatim>\<open>/\<close>. \<^verbatim>\<open>Path(v)\<close> raises
  \<^verbatim>\<open>TypeError\<close> when \<open>v\<close> is not a string.
\<close>

datatype path = Path string | Div path string

definition mk_path :: "pyval \<Rightarrow> py_exc + path" where
  "mk_path v = (case v of PStr s \<Rightarrow> Inr (Path s)
     | _ \<Rightarrow> Inl (TypeError (''expected str, bytes or os.PathLike object, not '' @ type_name v)))"

subsection \<open>The world outside\<close>

record spawn_request =
  argv :: "string list"
  cwd :: string
  timeout :: nat

text \<open>
  What \<^verbatim>\<open>subprocess.run\<close> does: it returns a completed process (return code, captured
  standard output and standard error), raises \<^verbatim>\<open>TimeoutExpired\<close>, or raises something else.
\<close>

datatype child_outcome =
    Completed int string string
  | TimeoutExpired
  | Raised py_exc

datatype event = Probe path bool | Spawn spawn_request child_outcome

text \<open>
  The manifest file \<^verbatim>\<open>studio_config.json\<close> as \<^verbatim>\<open>load_studio_config\<close> meets it: absent
  (\<^verbatim>\<open>FileNotFoundError\<close>), raising any other fault while it is read, or a document whose
  \<^verbatim>\<open>tools\<close> key holds a list of objects (the empty list when the key is missing).
\<close>

datatype manifest_file = Absent | Unreadable py_exc | Document "tool_info list"

record env =
  path_exists :: "event list \<Rightarrow> path \<Rightarrow> bool"
  path_str :: "path \<Rightarrow> string"
  subprocess_run :: "event list \<Rightarrow> spawn_request \<Rightarrow> child_outcome"
  studio_config :: manifest_file

subsection \<open>Engine state\<close>

record test_result =
  tool_id :: pyval
  tool_name :: pyval
  status :: string
  message :: string
  details :: "(string \<times> pyval) list"

record status_data =
  run_status :: string
  progress :: int
  run_message :: string

record engine =
  test_results :: "test_result list"
  status_file :: "status_data list"
  results_files :: "test_result list list"
  events :: "event list"

definition init :: engine where
  "init = \<lparr>test_results = [], status_file = [], results_files = [], events = []\<rparr>"

definition update_status :: "string \<Rightarrow> int \<Rightarrow> string \<Rightarrow> engine \<Rightarrow> engine" where
  "update_status st pr msg s =
     s\<lparr>status_file := status_file s @ [\<lparr>run_status = st, progress = pr, run_message = msg\<rparr>]\<rparr>"

definition load_studio_config :: "env \<Rightarrow> py_exc + tool_info list" where
  "load_studio_config w = (case studio_config w of
       Absent \<Rightarrow> Inr []
     | Unreadable e \<Rightarrow> Inl e
     | Document ts \<Rightarrow> Inr ts)"

text \<open>\<^verbatim>\<open>p.exists()\<close>: asks the world and records the question with its answer.\<close>

definition exists_probe :: "env \<Rightarrow> path \<Rightarrow> engine \<Rightarrow> bool \<times> engine" where
  "exists_probe w p s =
     (let b = path_exists w (events s) p in (b, s\<lparr>events := events s @ [Probe p b]\<rparr>))"

definition spawn :: "env \<Rightarrow> spawn_request \<Rightarrow> engine \<Rightarrow> child_outcome \<times> engine" where
  "spawn w rq s =
     (let out = subprocess_run w (events s) rq in (out, s\<lparr>events := events s @ [Spawn rq out]\<rparr>))"

subsection \<open>\<^verbatim>\<open>test_tool\<close>\<close>

text \<open>The \<^verbatim>\<open>try\<close> block of \<^verbatim>\<open>test_tool\<close> (lines 134 to 170): spawn and classify.\<close>

definition run_engine_test :: "env \<Rightarrow> path \<Rightarrow> path \<Rightarrow> test_result \<Rightarrow> engine \<Rightarrow> test_result \<times> engine" where
  "run_engine_test w tool_path venv_python result s =
     (case spawn w \<lparr>argv = [path_str w venv_python, ''engine.py'', ''--config'', ''config.json'', ''--test''],
                     cwd = path_str w tool_path, timeout = 30\<rparr> s of
        (Completed returncode out err, s') \<Rightarrow>
          (let result = result\<lparr>details := [(''exit_code'', PInt returncode),
                                             (''stdout'', PStr out), (''stderr'', PStr err)]\<rparr>
           in if returncode = 0
              then (result\<lparr>status := ''pass'', message := ''Test passed successfully''\<rparr>, s')
              else (result\<lparr>status := ''fail'',
                           message := ''Test failed with exit code '' @ str_int returncode\<rparr>, s'))
      | (TimeoutExpired, s') \<Rightarrow>
          (result\<lparr>status := ''fail'', message := ''Test timed out (>30s)''\<rparr>, s')
      | (Raised e, s') \<Rightarrow>
          (result\<lparr>status := ''fail'', message := ''Exception: '' @ exc_str e\<rparr>, s'))"

text \<open>
  \<^verbatim>\<open>test_tool\<close>. The three subscripts and \<^verbatim>\<open>Path()\<close> stand outside the \<^verbatim>\<open>try\<close> block,
  so what they raise leaves the function (\<open>Inl\<close>); the status update that names the tool
  is written before \<^verbatim>\<open>display_name\<close> is read.
\<close>

definition test_tool :: "env \<Rightarrow> tool_info \<Rightarrow> engine \<Rightarrow> (py_exc + test_result) \<times> engine" where
  "test_tool w tool_info s =
     (case getitem tool_info ''id'' of Inl e \<Rightarrow> (Inl e, s) | Inr tid \<Rightarrow>
     (case getitem tool_info ''path'' of Inl e \<Rightarrow> (Inl e, s) | Inr pv \<Rightarrow>
     (case mk_path pv of Inl e \<Rightarrow> (Inl e, s) | Inr tool_path \<Rightarrow>
     (let s = update_status ''running'' 0 (''Testing '' @ py_str tid @ ''...'') s in
     (case getitem tool_info ''display_name'' of Inl e \<Rightarrow> (Inl e, s) | Inr nm \<Rightarrow>
     (let result = \<lparr>tool_id = tid, tool_name = nm, status = ''unknown'', message = '''', details = []\<rparr>;
          (found, s) = exists_probe w tool_path s in
      if \<not> found
      then (Inr (result\<lparr>status := ''fail'',
                        message := ''Tool directory not found: '' @ path_str w tool_path\<rparr>), s)
      else
     (let engine_path = Div tool_path ''engine.py'';
          (found, s) = exists_probe w engine_path s in
      if \<not> found
      then (Inr (result\<lparr>status := ''skip'', message := ''No engine.py found (GUI-only tool)''\<rparr>), s)
      else
     (let config_path = Div tool_path ''config.json'';
          (found, s) = exists_probe w config_path s in
      if \<not> found
      then (Inr (result\<lparr>status := ''fail'', message := ''No config.json found''\<rparr>), s)
      else
     (let venv_python = Div (Div (Div tool_path ''.venv'') ''Scripts'') ''python.exe'';
          (found, s) = exists_probe w venv_python s in
      if \<not> found
      then (Inr (result\<lparr>status := ''fail'', message := ''Virtual environment not found''\<rparr>), s)
      else
     (let (r, s) = run_engine_test w tool_path venv_python result s in (Inr r, s)))))))))))"

subsection \<open>Double-precision arithmetic\<close>

text \<open>
  The progress value is computed in floating point: \<^verbatim>\<open>int(((i + 1) / total_tools) * 100)\<close>.
  A double is modelled by the rational it denotes. \<open>float_round\<close> rounds a rational to the
  nearest number with a 53-bit significand, ties to even, as the division of two integers
  and the multiplication of two doubles do. The exponent is not bounded in the model; the
  values met here lie between \<open>1 / total_tools\<close> and 100, far inside the range of a double.
\<close>

definition pow2 :: "int \<Rightarrow> rat" where
  "pow2 e = (if 0 \<le> e then 2 ^ nat e else 1 / 2 ^ nat (- e))"

definition round_half_even :: "rat \<Rightarrow> int" where
  "round_half_even x =
     (let f = \<lfloor>x\<rfloor>; d = x - of_int f
      in if d < 1 / 2 then f else if 1 / 2 < d then f + 1 else if even f then f else f + 1)"

text \<open>The binary exponent of a positive rational: \<open>pow2 (ilog2 x) \<le> x < pow2 (ilog2 x + 1)\<close>.\<close>

definition ilog2 :: "rat \<Rightarrow> int" where
  "ilog2 x = (let (p, q) = quotient_of x; k = bitlen p - bitlen q
              in if pow2 k \<le> x then k else k - 1)"

definition float_round :: "rat \<Rightarrow> rat" where
  "float_round x =
     (if x = 0 then 0
      else let u = pow2 (ilog2 \<bar>x\<bar> - 52)
           in sgn x * of_int (round_half_even (\<bar>x\<bar> / u)) * u)"

text \<open>\<^verbatim>\<open>int(((i + 1) / total_tools) * 100)\<close>; \<^verbatim>\<open>int()\<close> truncates, here a floor.\<close>

definition progress_of :: "nat \<Rightarrow> nat \<Rightarrow> int" where
  "progress_of i total_tools =
     \<lfloor>float_round (float_round (of_nat (i + 1) / of_nat total_tools) * 100)\<rfloor>"

subsection \<open>Summary, the two modes and \<^verbatim>\<open>run\<close>\<close>

definition count_status :: "string \<Rightarrow> test_result list \<Rightarrow> nat" where
  "count_status st rs = length (filter (\<lambda>r. status r = st) rs)"

definition generate_summary :: "engine \<Rightarrow> engine" where
  "generate_summary s =
     (let passed = count_status ''pass'' (test_results s);
          failed = count_status ''fail'' (test_results s);
          skipped = count_status ''skip'' (test_results s);
          s = (if failed > 0
               then update_status ''completed_with_errors'' 100
                      (digits passed @ '' passed, '' @ digits failed @ '' failed'') s
               else update_status ''completed'' 100 (''All '' @ digits passed @ '' tests passed'') s)
      in s\<lparr>results_files := results_files s @ [test_results s]\<rparr>)"

text \<open>
  The loop of \<^verbatim>\<open>test_all_tools\<close> over \<^verbatim>\<open>enumerate(tools)\<close>: \<open>i\<close> is the index of the head
  of the remaining list.
\<close>

fun test_loop :: "env \<Rightarrow> nat \<Rightarrow> nat \<Rightarrow> tool_info list \<Rightarrow> engine \<Rightarrow> (py_exc + unit) \<times> engine" where
  "test_loop w total_tools i [] s = (Inr (), s)"
| "test_loop w total_tools i (tool_info # rest) s =
     (let pr = progress_of i total_tools in
      case test_tool w tool_info s of
        (Inl e, s) \<Rightarrow> (Inl e, s)
      | (Inr result, s) \<Rightarrow>
          test_loop w total_tools (i + 1) rest
            (update_status ''running'' pr
               (''Tested '' @ digits (i + 1) @ ''/'' @ digits total_tools @ '' tools'')
               (s\<lparr>test_results := test_results s @ [result]\<rparr>)))"

definition test_all_tools :: "env \<Rightarrow> engine \<Rightarrow> (py_exc + unit) \<times> engine" where
  "test_all_tools w s =
     (let s = update_status ''running'' 0 ''Loading tools...'' s in
      case load_studio_config w of
        Inl e \<Rightarrow> (Inl e, s)
      | Inr tools \<Rightarrow>
          if tools = [] then (Inr (), update_status ''error'' 0 ''No tools to test'' s)
          else (case test_loop w (length tools) 0 tools s of
                  (Inl e, s) \<Rightarrow> (Inl e, s)
                | (Inr u, s) \<Rightarrow> (Inr (), generate_summary s)))"

text \<open>
  \<^verbatim>\<open>next((t for t in tools if t['id'] == tool_id), None)\<close>, with \<open>tool_id\<close> a string: the
  first entry whose \<^verbatim>\<open>id\<close> is that string; an entry without \<^verbatim>\<open>id\<close> met on the way raises.
\<close>

fun find_tool :: "string \<Rightarrow> tool_info list \<Rightarrow> py_exc + tool_info option" where
  "find_tool tid [] = Inr None"
| "find_tool tid (t # ts) =
     (case getitem t ''id'' of
        Inl e \<Rightarrow> Inl e
      | Inr v \<Rightarrow> if v = PStr tid then Inr (Some t) else find_tool tid ts)"

text \<open>\<^verbatim>\<open>if not tool_info\<close> holds of \<^verbatim>\<open>None\<close> and of the empty dict.\<close>

definition test_single_tool :: "env \<Rightarrow> string \<Rightarrow> engine \<Rightarrow> (py_exc + unit) \<times> engine" where
  "test_single_tool w tid s =
     (case load_studio_config w of
        Inl e \<Rightarrow> (Inl e, s)
      | Inr tools \<Rightarrow>
         (case find_tool tid tools of
            Inl e \<Rightarrow> (Inl e, s)
          | Inr found \<Rightarrow>
              if found = None \<or> found = Some []
              then (Inr (), update_status ''error'' 0 (''Tool '' @ [CHR 0x27] @ tid @ [CHR 0x27] @ '' not found'') s)
              else (case test_tool w (the found) s of
                      (Inl e, s) \<Rightarrow> (Inl e, s)
                    | (Inr result, s) \<Rightarrow>
                        (Inr (), generate_summary (s\<lparr>test_results := test_results s @ [result]\<rparr>)))))"

text \<open>The parsed command line: \<^verbatim>\<open>--test\<close> and \<^verbatim>\<open>--tool\<close> (\<open>None\<close> when not given).\<close>

record args =
  test :: bool
  tool :: "string option"

text \<open>
  \<^verbatim>\<open>run\<close> returns the completion code. \<^verbatim>\<open>if args.tool\<close> is false for \<^verbatim>\<open>None\<close> and for the
  empty string. A fault that leaves either mode is caught here.
\<close>

definition run :: "env \<Rightarrow> args \<Rightarrow> engine \<Rightarrow> int \<times> engine" where
  "run w a s =
     (if test a then (0, update_status ''test_mode'' 100 ''Test mode: Engine operational'' s)
      else (case (if tool a \<noteq> None \<and> tool a \<noteq> Some '''' then test_single_tool w (the (tool a)) s
                  else test_all_tools w s) of
              (Inl e, s) \<Rightarrow> (1, update_status ''error'' 0 (exc_str e) s)
            | (Inr u, s) \<Rightarrow>
                (let failed = count_status ''fail'' (test_results s)
                 in (if failed = 0 then 0 else 1, s))))"

section \<open>Vocabulary of the properties\<close>

text \<open>
  An entry is well formed when the executor can read it: it has \<^verbatim>\<open>id\<close> and
  \<^verbatim>\<open>display_name\<close>, and its \<^verbatim>\<open>path\<close> is a string.
\<close>

definition well_formed :: "tool_info \<Rightarrow> bool" where
  "well_formed t =
     (map_of t ''id'' \<noteq> None \<and> map_of t ''display_name'' \<noteq> None \<and>
      (case map_of t ''path'' of Some (PStr p) \<Rightarrow> True | _ \<Rightarrow> False))"

text \<open>
  The answers of the world to the four checks of \<^verbatim>\<open>test_tool\<close> on the root \<open>tp\<close>, each
  asked after the checks before it have passed, and what the child process then does.
\<close>

definition root_exists :: "env \<Rightarrow> engine \<Rightarrow> path \<Rightarrow> bool" where
  "root_exists w s tp = path_exists w (events s) tp"

definition engine_exists :: "env \<Rightarrow> engine \<Rightarrow> path \<Rightarrow> bool" where
  "engine_exists w s tp = path_exists w (events s @ [Probe tp True]) (Div tp ''engine.py'')"

definition config_exists :: "env \<Rightarrow> engine \<Rightarrow> path \<Rightarrow> bool" where
  "config_exists w s tp =
     path_exists w (events s @ [Probe tp True, Probe (Div tp ''engine.py'') True])
       (Div tp ''config.json'')"

definition venv_exists :: "env \<Rightarrow> engine \<Rightarrow> path \<Rightarrow> bool" where
  "venv_exists w s tp =
     path_exists w (events s @ [Probe tp True, Probe (Div tp ''engine.py'') True,
                                Probe (Div tp ''config.json'') True])
       (Div (Div (Div tp ''.venv'') ''Scripts'') ''python.exe'')"

definition test_command :: "env \<Rightarrow> path \<Rightarrow> spawn_request" where
  "test_command w tp =
     \<lparr>argv = [path_str w (Div (Div (Div tp ''.venv'') ''Scripts'') ''python.exe''),
              ''engine.py'', ''--config'', ''config.json'', ''--test''],
      cwd = path_str w tp, timeout = 30\<rparr>"

definition child_result :: "env \<Rightarrow> engine \<Rightarrow> path \<Rightarrow> child_outcome" where
  "child_result w s tp =
     subprocess_run w (events s @ [Probe tp True, Probe (Div tp ''engine.py'') True,
                                   Probe (Div tp ''config.json'') True,
                                   Probe (Div (Div (Div tp ''.venv'') ''Scripts'') ''python.exe'') True])
       (test_command w tp)"

text \<open>
  The status updates of a full-suite run: the one \<^verbatim>\<open>test_tool\<close> writes before it tests
  an entry (line 92), and the one \<^verbatim>\<open>test_all_tools\<close> writes after the \<open>k\<close>-th of \<open>n\<close> tools
  (line 191). An update is run-level when it is not of the first kind.
\<close>

definition testing_update :: "tool_info \<Rightarrow> status_data" where
  "testing_update t =
     \<lparr>run_status = ''running'', progress = 0,
      run_message = ''Testing '' @ py_str (the (map_of t ''id'')) @ ''...''\<rparr>"

definition tested_update :: "nat \<Rightarrow> nat \<Rightarrow> status_data" where
  "tested_update k n =
     \<lparr>run_status = ''running'', progress = progress_of (k - 1) n,
      run_message = ''Tested '' @ digits k @ ''/'' @ digits n @ '' tools''\<rparr>"

definition run_level :: "status_data \<Rightarrow> bool" where
  "run_level d = (take 8 (run_message d) \<noteq> ''Testing '')"

subsection \<open>A sample world\<close>

text \<open>
  Used to run the model on concrete inputs. Paths print in POSIX style; every path exists
  but four; the child process of the tool at \<^verbatim>\<open>good\<close> exits with 0, at \<^verbatim>\<open>bad\<close> with 1,
  at \<^verbatim>\<open>slow\<close> it times out, and anywhere else it cannot be started.
\<close>

fun posix_str :: "path \<Rightarrow> string" where
  "posix_str (Path s) = s"
| "posix_str (Div p c) = posix_str p @ ''/'' @ c"

definition entry :: "string \<Rightarrow> tool_info" where
  "entry n = [(''id'', PStr n), (''display_name'', PStr n), (''path'', PStr n), (''enabled'', PBool True)]"

definition sample_world :: env where
  "sample_world =
     \<lparr>path_exists = (\<lambda>ev p. p \<notin> set [Path ''noroot'', Div (Path ''noengine'') ''engine.py'',
                                       Div (Path ''noconfig'') ''config.json'',
                                       Div (Div (Div (Path ''novenv'') ''.venv'') ''Scripts'') ''python.exe'']),
      path_str = posix_str,
      subprocess_run = (\<lambda>ev rq. if cwd rq = ''good'' then Completed 0 ''ok'' ''''
                                 else if cwd rq = ''bad'' then Completed 1 '''' ''boom''
                                 else if cwd rq = ''slow'' then TimeoutExpired
                                 else Raised (OtherError ''[WinError 193]'')),
      studio_config = Document [entry ''good'', entry ''bad'']\<rparr>"

definition full_suite :: args where
  "full_suite = \<lparr>test = False, tool = None\<rparr>"

definition single_tool :: "string \<Rightarrow> args" where
  "single_tool tid = \<lparr>test = False, tool = Some tid\<rparr>"

section \<open>Properties of the double-precision rounding\<close>

lemma pow2_powi: "pow2 e = 2 powi e"
  by (simp add: pow2_def power_int_def power_one_over inverse_eq_divide)

lemma pow2_pos [simp]: "0 < pow2 e"
  by (simp add: pow2_powi)

lemma pow2_add: "pow2 (a + b) = pow2 a * pow2 b"
  by (simp add: pow2_powi power_int_add)

lemma pow2_mono: "a \<le> b \<Longrightarrow> pow2 a \<le> pow2 b"
  by (simp add: pow2_powi power_int_increasing)

lemma pow2_less_cancel: "pow2 a < pow2 b \<Longrightarrow> a < b"
  using pow2_mono [of b a] by (cases "a < b") auto

lemma pow2_nat: "pow2 (int n) = 2 ^ n"
  by (simp add: pow2_def)

lemma pow2_split_52: "pow2 e = pow2 (e - 52) * 2 ^ 52"
proof -
  have "e = (e - 52) + int 52" by simp
  then have "pow2 e = pow2 ((e - 52) + int 52)" by (rule arg_cong)
  also have "\<dots> = pow2 (e - 52) * 2 ^ 52"
    unfolding pow2_add pow2_nat ..
  finally show ?thesis .
qed

lemma pow2_split_53: "pow2 (e + 1) = pow2 (e - 52) * 2 ^ 53"
proof -
  have "e + 1 = (e - 52) + int 53" by simp
  then have "pow2 (e + 1) = pow2 ((e - 52) + int 53)" by (rule arg_cong)
  also have "\<dots> = pow2 (e - 52) * 2 ^ 53"
    unfolding pow2_add pow2_nat ..
  finally show ?thesis .
qed

lemma ilog2_bounds:
  assumes "0 < x"
  shows "pow2 (ilog2 x) \<le> x \<and> x < pow2 (ilog2 x + 1)"
proof -
  obtain p q where pq: "quotient_of x = (p, q)"
    by (cases "quotient_of x")
  have q: "0 < q"
    using pq quotient_of_denom_pos by blast
  have x: "x = of_int p / of_int q"
    using pq quotient_of_div by blast
  have p: "0 < p"
    using assms q x by (simp add: zero_less_divide_iff)
  define k where "k = bitlen p - bitlen q"
  have bp: "1 \<le> bitlen p" and bq: "1 \<le> bitlen q"
    using p q by (simp_all add: bitlen_alt_def)
  have p1: "(2::rat) ^ nat (bitlen p - 1) \<le> of_int p" and p2: "of_int p < (2::rat) ^ nat (bitlen p)"
    using bitlen_bounds [OF p] by (metis of_int_le_iff of_int_numeral of_int_power, metis of_int_less_iff of_int_numeral of_int_power)
  have q1: "(2::rat) ^ nat (bitlen q - 1) \<le> of_int q" and q2: "of_int q < (2::rat) ^ nat (bitlen q)"
    using bitlen_bounds [OF q] by (metis of_int_le_iff of_int_numeral of_int_power, metis of_int_less_iff of_int_numeral of_int_power)
  have P1: "pow2 (bitlen p - 1) \<le> of_int p" and P2: "of_int p < pow2 (bitlen p)"
    using p1 p2 bp by (simp_all add: pow2_def)
  have Q1: "pow2 (bitlen q - 1) \<le> of_int q" and Q2: "of_int q < pow2 (bitlen q)"
    using q1 q2 bq by (simp_all add: pow2_def)
  have qpos: "(0::rat) < of_int q"
    using q by simp
  have up: "x < pow2 (k + 1)"
  proof -
    have "of_int p < pow2 (bitlen p)" by (rule P2)
    also have "\<dots> = pow2 (k + 1) * pow2 (bitlen q - 1)"
      by (simp add: pow2_add [symmetric] k_def)
    also have "\<dots> \<le> pow2 (k + 1) * of_int q"
      using Q1 by (simp add: mult_left_mono less_imp_le)
    finally show ?thesis
      using qpos by (simp add: x pos_divide_less_eq)
  qed
  have lo: "pow2 (k - 1) \<le> x"
  proof -
    have "pow2 (k - 1) * of_int q \<le> pow2 (k - 1) * pow2 (bitlen q)"
      using Q2 by (simp add: mult_left_mono less_imp_le)
    also have "\<dots> = pow2 (bitlen p - 1)"
      by (simp add: pow2_add [symmetric] k_def)
    also have "\<dots> \<le> of_int p" by (rule P1)
    finally show ?thesis
      using qpos by (simp add: x pos_le_divide_eq)
  qed
  show ?thesis
  proof (cases "pow2 k \<le> x")
    case True
    then have "ilog2 x = k"
      by (simp add: ilog2_def pq k_def)
    with True up show ?thesis by simp
  next
    case False
    then have "ilog2 x = k - 1"
      by (simp add: ilog2_def pq k_def)
    with False lo show ?thesis by simp
  qed
qed

lemma ilog2_mono:
  assumes "0 < x" and "x \<le> y"
  shows "ilog2 x \<le> ilog2 y"
proof -
  have "pow2 (ilog2 x) \<le> x"
    using ilog2_bounds [OF assms(1)] by simp
  also have "x \<le> y" by fact
  also have "y < pow2 (ilog2 y + 1)"
    using ilog2_bounds [of y] assms by simp
  finally show ?thesis
    using pow2_less_cancel by fastforce
qed

lemma round_half_even_bounds: "\<lfloor>x\<rfloor> \<le> round_half_even x \<and> round_half_even x \<le> \<lfloor>x\<rfloor> + 1"
  by (simp add: round_half_even_def Let_def)

lemma round_half_even_of_int [simp]: "round_half_even (of_int n) = n"
  by (simp add: round_half_even_def)

lemma round_half_even_mono:
  assumes "x \<le> y"
  shows "round_half_even x \<le> round_half_even y"
proof (cases "\<lfloor>x\<rfloor> = \<lfloor>y\<rfloor>")
  case True
  then show ?thesis
    using assms by (auto simp: round_half_even_def Let_def)
next
  case False
  then have "\<lfloor>x\<rfloor> + 1 \<le> \<lfloor>y\<rfloor>"
    using floor_mono [OF assms] by simp
  then show ?thesis
    using round_half_even_bounds [of x] round_half_even_bounds [of y] by linarith
qed


lemma float_round_pos:
  assumes "0 < x"
  shows "float_round x = of_int (round_half_even (x / pow2 (ilog2 x - 52))) * pow2 (ilog2 x - 52)"
  using assms by (simp add: float_round_def Let_def)

lemma scaled_bounds:
  assumes "0 < x"
  shows "2 ^ 52 \<le> x / pow2 (ilog2 x - 52) \<and> x / pow2 (ilog2 x - 52) \<le> 2 ^ 53"
proof -
  from ilog2_bounds [OF assms] show ?thesis
    unfolding pow2_split_52 [of "ilog2 x"] pow2_split_53 [of "ilog2 x"]
    by (simp add: pos_le_divide_eq pos_divide_le_eq mult.commute)
qed

lemma float_round_bounds:
  assumes "0 < x"
  shows "pow2 (ilog2 x) \<le> float_round x \<and> float_round x \<le> pow2 (ilog2 x + 1)"
proof -
  let ?u = "pow2 (ilog2 x - 52)"
  have a: "pow2 (ilog2 x) = 2 ^ 52 * ?u"
    using pow2_split_52 [of "ilog2 x"] by (simp add: mult.commute)
  have b: "pow2 (ilog2 x + 1) = 2 ^ 53 * ?u"
    using pow2_split_53 [of "ilog2 x"] by (simp add: mult.commute)
  have "round_half_even (of_int (2 ^ 52)) \<le> round_half_even (x / ?u)"
    using scaled_bounds [OF assms] by (intro round_half_even_mono) simp
  then have lo: "(2::rat) ^ 52 \<le> of_int (round_half_even (x / ?u))"
    unfolding round_half_even_of_int by (metis of_int_le_iff of_int_numeral of_int_power)
  have "round_half_even (x / ?u) \<le> round_half_even (of_int (2 ^ 53))"
    using scaled_bounds [OF assms] by (intro round_half_even_mono) simp
  then have hi: "of_int (round_half_even (x / ?u)) \<le> (2::rat) ^ 53"
    unfolding round_half_even_of_int by (metis of_int_le_iff of_int_numeral of_int_power)
  show ?thesis
    unfolding float_round_pos [OF assms] a b
    using lo hi by (simp add: mult_right_mono less_imp_le)
qed

lemma float_round_nonneg:
  assumes "0 \<le> x"
  shows "0 \<le> float_round x"
proof (cases "x = 0")
  case True
  then show ?thesis by (simp add: float_round_def)
next
  case False
  then have "0 < x" using assms by simp
  from float_round_bounds [OF this] pow2_pos [of "ilog2 x"] show ?thesis
    by linarith
qed

lemma float_round_mono:
  assumes "0 \<le> x" and "x \<le> y"
  shows "float_round x \<le> float_round y"
proof (cases "x = 0")
  case True
  then show ?thesis
    using float_round_nonneg [of y] assms by (simp add: float_round_def)
next
  case False
  then have x: "0 < x" and y: "0 < y"
    using assms by simp_all
  show ?thesis
  proof (cases "ilog2 x = ilog2 y")
    case True
    have "x / pow2 (ilog2 y - 52) \<le> y / pow2 (ilog2 y - 52)"
      using assms by (simp add: divide_right_mono less_imp_le)
    then have "round_half_even (x / pow2 (ilog2 y - 52)) \<le> round_half_even (y / pow2 (ilog2 y - 52))"
      by (rule round_half_even_mono)
    then show ?thesis
      unfolding float_round_pos [OF x] float_round_pos [OF y] True
      by (simp add: mult_right_mono less_imp_le)
  next
    case False
    then have "ilog2 x + 1 \<le> ilog2 y"
      using ilog2_mono [OF x assms(2)] by simp
    then have "pow2 (ilog2 x + 1) \<le> pow2 (ilog2 y)"
      by (rule pow2_mono)
    then show ?thesis
      using float_round_bounds [OF x] float_round_bounds [OF y] by linarith
  qed
qed

lemma float_round_1: "float_round 1 = 1"
  by code_simp

lemma float_round_100: "float_round 100 = 100"
  by code_simp

lemma progress_of_nonneg: "0 \<le> progress_of i n"
proof -
  have "(0::rat) \<le> of_nat (i + 1) / of_nat n"
    by simp
  then have "0 \<le> float_round (of_nat (i + 1) / of_nat n) * 100"
    using float_round_nonneg by fastforce
  then show ?thesis
    unfolding progress_of_def using float_round_nonneg by fastforce
qed

lemma progress_of_mono:
  assumes "i \<le> j"
  shows "progress_of i n \<le> progress_of j n"
proof -
  have "(of_nat (i + 1) :: rat) / of_nat n \<le> of_nat (j + 1) / of_nat n"
    using assms by (simp add: divide_right_mono)
  then have "float_round (of_nat (i + 1) / of_nat n) \<le> float_round (of_nat (j + 1) / of_nat n)"
    by (intro float_round_mono) simp_all
  then have "float_round (float_round (of_nat (i + 1) / of_nat n) * 100)
      \<le> float_round (float_round (of_nat (j + 1) / of_nat n) * 100)"
    by (intro float_round_mono mult_nonneg_nonneg float_round_nonneg) simp_all
  then show ?thesis
    unfolding progress_of_def by (rule floor_mono)
qed

lemma progress_of_last: "0 < n \<Longrightarrow> progress_of (n - 1) n = 100"
  by (simp add: progress_of_def float_round_1 float_round_100)

lemma progress_of_le_100: "i < n \<Longrightarrow> progress_of i n \<le> 100"
  using progress_of_mono [of i "n - 1" n] progress_of_last [of n] by simp



section \<open>The per-tool executor\<close>

lemma getitem_Inr: "getitem t k = Inr v \<longleftrightarrow> map_of t k = Some v"
  by (simp add: getitem_def split: option.splits)

lemma mk_path_Inr: "mk_path v = Inr p \<longleftrightarrow> (\<exists>x. v = PStr x \<and> p = Path x)"
  by (cases v) (auto simp: mk_path_def)

lemmas test_tool_unfold =
  test_tool_def run_engine_test_def exists_probe_def spawn_def update_status_def Let_def

text \<open>
  Claim C3. For a manifest entry with its three fields, the checks run in the order root,
  entry point, configuration file, interpreter, and the first one that fails decides the
  result: a missing root gives \<open>fail\<close> with the path in the message, a missing
  \<^verbatim>\<open>engine.py\<close> gives \<open>skip\<close>, a missing \<^verbatim>\<open>config.json\<close> gives \<open>fail\<close>, a missing
  interpreter gives \<open>fail\<close>. The trace of probes in the returned state ends with the failing
  check: no later check is made and no child process is started.
\<close>

theorem validation_order:
  assumes "getitem ti ''id'' = Inr tid" and "getitem ti ''path'' = Inr (PStr p)"
    and "getitem ti ''display_name'' = Inr nm"
  shows "(\<not> root_exists w s (Path p) \<longrightarrow>
           test_tool w ti s =
             (Inr \<lparr>tool_id = tid, tool_name = nm, status = ''fail'',
                   message = ''Tool directory not found: '' @ path_str w (Path p), details = []\<rparr>,
              update_status ''running'' 0 (''Testing '' @ py_str tid @ ''...'') s
                \<lparr>events := events s @ [Probe (Path p) False]\<rparr>))
       \<and> (root_exists w s (Path p) \<and> \<not> engine_exists w s (Path p) \<longrightarrow>
           test_tool w ti s =
             (Inr \<lparr>tool_id = tid, tool_name = nm, status = ''skip'',
                   message = ''No engine.py found (GUI-only tool)'', details = []\<rparr>,
              update_status ''running'' 0 (''Testing '' @ py_str tid @ ''...'') s
                \<lparr>events := events s @ [Probe (Path p) True,
                                         Probe (Div (Path p) ''engine.py'') False]\<rparr>))
       \<and> (root_exists w s (Path p) \<and> engine_exists w s (Path p) \<and> \<not> config_exists w s (Path p) \<longrightarrow>
           test_tool w ti s =
             (Inr \<lparr>tool_id = tid, tool_name = nm, status = ''fail'',
                   message = ''No config.json found'', details = []\<rparr>,
              update_status ''running'' 0 (''Testing '' @ py_str tid @ ''...'') s
                \<lparr>events := events s @ [Probe (Path p) True,
                                         Probe (Div (Path p) ''engine.py'') True,
                                         Probe (Div (Path p) ''config.json'') False]\<rparr>))
       \<and> (root_exists w s (Path p) \<and> engine_exists w s (Path p) \<and> config_exists w s (Path p)
            \<and> \<not> venv_exists w s (Path p) \<longrightarrow>
           test_tool w ti s =
             (Inr \<lparr>tool_id = tid, tool_name = nm, status = ''fail'',
                   message = ''Virtual environment not found'', details = []\<rparr>,
              update_status ''running'' 0 (''Testing '' @ py_str tid @ ''...'') s
                \<lparr>events := events s @ [Probe (Path p) True,
                                         Probe (Div (Path p) ''engine.py'') True,
                                         Probe (Div (Path p) ''config.json'') True,
                                         Probe (Div (Div (Div (Path p) ''.venv'') ''Scripts'') ''python.exe'') False]\<rparr>))"
  using assms
  by (simp add: test_tool_unfold root_exists_def engine_exists_def config_exists_def
      venv_exists_def mk_path_def)

lemmas sample_simps =
  sample_world_def entry_def getitem_def init_def root_exists_def engine_exists_def
  config_exists_def venv_exists_def child_result_def test_command_def update_status_def

theorem validation_order_witness:
  "fst (test_tool sample_world (entry ''noroot'') init) =
     Inr \<lparr>tool_id = PStr ''noroot'', tool_name = PStr ''noroot'', status = ''fail'',
          message = ''Tool directory not found: noroot'', details = []\<rparr>
   \<and> events (snd (test_tool sample_world (entry ''noroot'') init)) = [Probe (Path ''noroot'') False]
   \<and> fst (test_tool sample_world (entry ''noengine'') init) =
     Inr \<lparr>tool_id = PStr ''noengine'', tool_name = PStr ''noengine'', status = ''skip'',
          message = ''No engine.py found (GUI-only tool)'', details = []\<rparr>
   \<and> fst (test_tool sample_world (entry ''noconfig'') init) =
     Inr \<lparr>tool_id = PStr ''noconfig'', tool_name = PStr ''noconfig'', status = ''fail'',
          message = ''No config.json found'', details = []\<rparr>
   \<and> fst (test_tool sample_world (entry ''novenv'') init) =
     Inr \<lparr>tool_id = PStr ''novenv'', tool_name = PStr ''novenv'', status = ''fail'',
          message = ''Virtual environment not found'', details = []\<rparr>"
  using validation_order [of "entry ''noroot''" "PStr ''noroot''" "''noroot''" "PStr ''noroot''" sample_world init]
    validation_order [of "entry ''noengine''" "PStr ''noengine''" "''noengine''" "PStr ''noengine''" sample_world init]
    validation_order [of "entry ''noconfig''" "PStr ''noconfig''" "''noconfig''" "PStr ''noconfig''" sample_world init]
    validation_order [of "entry ''novenv''" "PStr ''novenv''" "''novenv''" "PStr ''novenv''" sample_world init]
  by (simp add: sample_simps)

text \<open>
  Claim C4. When the four checks pass, the child process is started once with a timeout of
  30 and its outcome is classified: return code 0 gives \<open>pass\<close>; any other return code gives
  \<open>fail\<close> with the code in the message; in both cases the return code and the captured
  output are stored in \<open>details\<close>; a timeout gives \<open>fail\<close> with a message that no other
  outcome produces; any other fault gives \<open>fail\<close> with the fault's text in the message.
\<close>

theorem outcome_classification:
  assumes "getitem ti ''id'' = Inr tid" and "getitem ti ''path'' = Inr (PStr p)"
    and "getitem ti ''display_name'' = Inr nm"
    and "root_exists w s (Path p)" and "engine_exists w s (Path p)"
    and "config_exists w s (Path p)" and "venv_exists w s (Path p)"
  shows "\<exists>r s'. test_tool w ti s = (Inr r, s') \<and> tool_id r = tid \<and> tool_name r = nm
       \<and> events s' = events s @ [Probe (Path p) True, Probe (Div (Path p) ''engine.py'') True,
                                 Probe (Div (Path p) ''config.json'') True,
                                 Probe (Div (Div (Div (Path p) ''.venv'') ''Scripts'') ''python.exe'') True,
                                 Spawn (test_command w (Path p)) (child_result w s (Path p))]
       \<and> timeout (test_command w (Path p)) = 30
       \<and> (\<forall>out err. child_result w s (Path p) = Completed 0 out err \<longrightarrow>
             status r = ''pass'' \<and> message r = ''Test passed successfully'')
       \<and> (\<forall>rc out err. child_result w s (Path p) = Completed rc out err \<and> rc \<noteq> 0 \<longrightarrow>
             status r = ''fail'' \<and> message r = ''Test failed with exit code '' @ str_int rc)
       \<and> (\<forall>rc out err. child_result w s (Path p) = Completed rc out err \<longrightarrow>
             details r = [(''exit_code'', PInt rc), (''stdout'', PStr out), (''stderr'', PStr err)])
       \<and> (child_result w s (Path p) = TimeoutExpired \<longrightarrow>
             status r = ''fail'' \<and> message r = ''Test timed out (>30s)'' \<and> details r = [])
       \<and> (\<forall>e. child_result w s (Path p) = Raised e \<longrightarrow>
             status r = ''fail'' \<and> message r = ''Exception: '' @ exc_str e \<and> details r = [])
       \<and> (message r = ''Test timed out (>30s)'' \<longleftrightarrow> child_result w s (Path p) = TimeoutExpired)"
  using assms
  by (cases "child_result w s (Path p)")
     (auto simp: test_tool_unfold root_exists_def engine_exists_def config_exists_def
        venv_exists_def child_result_def test_command_def mk_path_def)

theorem outcome_classification_witness:
  "fst (test_tool sample_world (entry ''good'') init) =
     Inr \<lparr>tool_id = PStr ''good'', tool_name = PStr ''good'', status = ''pass'',
          message = ''Test passed successfully'',
          details = [(''exit_code'', PInt 0), (''stdout'', PStr ''ok''), (''stderr'', PStr '''')]\<rparr>
   \<and> fst (test_tool sample_world (entry ''bad'') init) =
     Inr \<lparr>tool_id = PStr ''bad'', tool_name = PStr ''bad'', status = ''fail'',
          message = ''Test failed with exit code 1'',
          details = [(''exit_code'', PInt 1), (''stdout'', PStr ''''), (''stderr'', PStr ''boom'')]\<rparr>
   \<and> fst (test_tool sample_world (entry ''slow'') init) =
     Inr \<lparr>tool_id = PStr ''slow'', tool_name = PStr ''slow'', status = ''fail'',
          message = ''Test timed out (>30s)'', details = []\<rparr>
   \<and> fst (test_tool sample_world (entry ''broken'') init) =
     Inr \<lparr>tool_id = PStr ''broken'', tool_name = PStr ''broken'', status = ''fail'',
          message = ''Exception: [WinError 193]'', details = []\<rparr>"
proof -
  have a: "str_int 1 = ''1''"
    by (simp add: str_int_def digits.simps)
  show ?thesis
    using outcome_classification [of "entry ''good''" "PStr ''good''" "''good''" "PStr ''good''" sample_world init]
      outcome_classification [of "entry ''bad''" "PStr ''bad''" "''bad''" "PStr ''bad''" sample_world init]
      outcome_classification [of "entry ''slow''" "PStr ''slow''" "''slow''" "PStr ''slow''" sample_world init]
      outcome_classification [of "entry ''broken''" "PStr ''broken''" "''broken''" "PStr ''broken''" sample_world init]
    by (auto simp: sample_simps a)
qed

lemma well_formed_iff:
  "well_formed ti \<longleftrightarrow> (\<exists>tid p nm. getitem ti ''id'' = Inr tid \<and> getitem ti ''path'' = Inr (PStr p)
      \<and> getitem ti ''display_name'' = Inr nm)"
  by (auto simp: well_formed_def getitem_def split: option.splits pyval.splits)

lemma test_tool_cases:
  assumes "getitem ti ''id'' = Inr tid" and "getitem ti ''path'' = Inr (PStr p)"
    and "getitem ti ''display_name'' = Inr nm"
  shows "\<exists>r s'. test_tool w ti s = (Inr r, s') \<and> tool_id r = tid \<and> tool_name r = nm
     \<and> status r \<in> {''pass'', ''fail'', ''skip''} \<and> message r \<noteq> ''''
     \<and> (details r = [] \<or> (\<exists>rc out err. details r =
            [(''exit_code'', PInt rc), (''stdout'', PStr out), (''stderr'', PStr err)]))
     \<and> test_results s' = test_results s \<and> results_files s' = results_files s
     \<and> status_file s' = status_file s @
          [\<lparr>run_status = ''running'', progress = 0, run_message = ''Testing '' @ py_str tid @ ''...''\<rparr>]"
proof (cases "root_exists w s (Path p) \<and> engine_exists w s (Path p)
              \<and> config_exists w s (Path p) \<and> venv_exists w s (Path p)")
  case True
  then show ?thesis
    using assms
    by (cases "child_result w s (Path p)")
       (auto simp: test_tool_unfold root_exists_def engine_exists_def config_exists_def
          venv_exists_def child_result_def test_command_def mk_path_def)
next
  case False
  then show ?thesis
    using assms
    by (auto simp: test_tool_unfold root_exists_def engine_exists_def config_exists_def
          venv_exists_def mk_path_def)
qed

lemma test_tool_raises:
  assumes "\<not> well_formed ti"
  shows "\<exists>e s'. test_tool w ti s = (Inl e, s')
     \<and> (s' = s \<or> (\<exists>m. s' = update_status ''running'' 0 (''Testing '' @ m) s))"
proof (cases "getitem ti ''id''")
  case (Inl e)
  then show ?thesis by (simp add: test_tool_def)
next
  case id: (Inr tid)
  show ?thesis
  proof (cases "getitem ti ''path''")
    case (Inl e)
    with id show ?thesis by (simp add: test_tool_def)
  next
    case pth: (Inr pv)
    show ?thesis
    proof (cases "mk_path pv")
      case (Inl e)
      with id pth show ?thesis by (simp add: test_tool_def)
    next
      case (Inr tp)
      then obtain p where pv: "pv = PStr p"
        by (auto simp: mk_path_Inr)
      have "\<exists>e. getitem ti ''display_name'' = Inl e"
        using assms id pth pv
        by (cases "getitem ti ''display_name''") (auto simp: well_formed_iff)
      then show ?thesis
        using id pth pv by (auto simp: test_tool_def mk_path_def Let_def)
    qed
  qed
qed

text \<open>
  Claim C10. A result returned by the executor has status \<open>pass\<close>, \<open>fail\<close> or \<open>skip\<close>, never
  the initial \<open>unknown\<close>; its \<open>tool_id\<close> and \<open>tool_name\<close> are the entry's \<^verbatim>\<open>id\<close> and
  \<^verbatim>\<open>display_name\<close>; \<open>details\<close> is empty or holds the return code and the captured output.
  (That the five fields are present is the record type itself.)
\<close>

theorem returned_result_status:
  assumes "test_tool w ti s = (Inr r, s')"
  shows "status r \<in> {''pass'', ''fail'', ''skip''} \<and> status r \<noteq> ''unknown''
     \<and> getitem ti ''id'' = Inr (tool_id r) \<and> getitem ti ''display_name'' = Inr (tool_name r)
     \<and> (details r = [] \<or> (\<exists>rc out err. details r =
            [(''exit_code'', PInt rc), (''stdout'', PStr out), (''stderr'', PStr err)]))"
proof -
  have "well_formed ti"
    using assms test_tool_raises [of ti w s] by auto
  then obtain tid p nm where f: "getitem ti ''id'' = Inr tid" "getitem ti ''path'' = Inr (PStr p)"
      "getitem ti ''display_name'' = Inr nm"
    by (auto simp: well_formed_iff)
  from test_tool_cases [OF f, of w s] assms show ?thesis
    using f by auto
qed

theorem returned_result_status_witness:
  "test_tool sample_world (entry ''noengine'') init =
     (Inr \<lparr>tool_id = PStr ''noengine'', tool_name = PStr ''noengine'', status = ''skip'',
           message = ''No engine.py found (GUI-only tool)'', details = []\<rparr>,
      \<lparr>test_results = [],
       status_file = [\<lparr>run_status = ''running'', progress = 0, run_message = ''Testing noengine...''\<rparr>],
       results_files = [],
       events = [Probe (Path ''noengine'') True, Probe (Div (Path ''noengine'') ''engine.py'') False]\<rparr>)
   \<and> ''skip'' \<in> {''pass'', ''fail'', ''skip''}"
proof -
  have h: "test_tool sample_world (entry ''noengine'') init =
     (Inr \<lparr>tool_id = PStr ''noengine'', tool_name = PStr ''noengine'', status = ''skip'',
           message = ''No engine.py found (GUI-only tool)'', details = []\<rparr>,
      \<lparr>test_results = [],
       status_file = [\<lparr>run_status = ''running'', progress = 0, run_message = ''Testing noengine...''\<rparr>],
       results_files = [],
       events = [Probe (Path ''noengine'') True, Probe (Div (Path ''noengine'') ''engine.py'') False]\<rparr>)"
    by (simp add: test_tool_unfold sample_simps mk_path_def)
  from returned_result_status [OF h] h show ?thesis by simp
qed




section \<open>What the executor and the loop leave unchanged\<close>

lemma digits_hd: "digits n \<noteq> [] \<and> hd (digits n) \<in> set ''0123456789''"
proof (induction n rule: digits.induct)
  case (1 n)
  show ?case
  proof (cases "n < 10")
    case True
    then have "''0123456789'' ! n \<in> set ''0123456789''"
      by (intro nth_mem) simp
    with True show ?thesis
      by (subst (1 2) digits.simps) simp
  next
    case False
    with 1 show ?thesis
      by (subst (1 2) digits.simps) simp
  qed
qed

lemma run_level_digits [simp]: "run_level \<lparr>run_status = a, progress = b, run_message = digits n @ m\<rparr>"
proof -
  have "hd (take 8 (digits n @ m)) = hd (digits n)"
    using digits_hd [of n] by (cases "digits n") simp_all
  then have "hd (take 8 (digits n @ m)) \<noteq> CHR ''T''"
    using digits_hd [of n] by auto
  then show ?thesis
    by (auto simp: run_level_def)
qed

lemma test_tool_wf:
  assumes "well_formed t"
  shows "\<exists>r s'. test_tool w t s = (Inr r, s') \<and> tool_id r = the (map_of t ''id'')
     \<and> tool_name r = the (map_of t ''display_name'')
     \<and> test_results s' = test_results s \<and> results_files s' = results_files s
     \<and> status_file s' = status_file s @ [testing_update t]"
proof -
  from assms obtain tid p nm where f: "getitem t ''id'' = Inr tid" "getitem t ''path'' = Inr (PStr p)"
      "getitem t ''display_name'' = Inr nm"
    by (auto simp: well_formed_iff)
  from test_tool_cases [OF f, of w s] f show ?thesis
    by (auto simp: testing_update_def getitem_Inr)
qed

text \<open>Whatever the entry, the executor touches neither the results nor the results files,
  and writes at most its own status update.\<close>

lemma test_tool_frame:
  assumes "test_tool w t s = (res, s')"
  shows "test_results s' = test_results s \<and> results_files s' = results_files s
     \<and> (status_file s' = status_file s \<or> (\<exists>m. status_file s' = status_file s @
            [\<lparr>run_status = ''running'', progress = 0, run_message = ''Testing '' @ m\<rparr>]))"
proof (cases "well_formed t")
  case True
  from test_tool_wf [OF True, of w s] assms show ?thesis
    by (auto simp: testing_update_def)
next
  case False
  from test_tool_raises [OF False, of w s] assms show ?thesis
    by (auto simp: update_status_def)
qed

lemma generate_summary_fields [simp]:
  "test_results (generate_summary s) = test_results s"
  "results_files (generate_summary s) = results_files s @ [test_results s]"
  "events (generate_summary s) = events s"
  by (simp_all add: generate_summary_def update_status_def Let_def)

lemma generate_summary_status:
  "status_file (generate_summary s) = status_file s @
     [if count_status ''fail'' (test_results s) = 0
      then \<lparr>run_status = ''completed'', progress = 100,
            run_message = ''All '' @ digits (count_status ''pass'' (test_results s)) @ '' tests passed''\<rparr>
      else \<lparr>run_status = ''completed_with_errors'', progress = 100,
            run_message = digits (count_status ''pass'' (test_results s)) @ '' passed, ''
              @ digits (count_status ''fail'' (test_results s)) @ '' failed''\<rparr>]"
  by (simp add: generate_summary_def update_status_def Let_def)

lemma update_status_fields [simp]:
  "test_results (update_status a b c s) = test_results s"
  "results_files (update_status a b c s) = results_files s"
  "events (update_status a b c s) = events s"
  "status_file (update_status a b c s) = status_file s @ [\<lparr>run_status = a, progress = b, run_message = c\<rparr>]"
  by (simp_all add: update_status_def)

lemma tested_update_run_level [simp]: "run_level (tested_update k n)"
  by (simp add: tested_update_def run_level_def)

lemma testing_update_not_run_level [simp]: "\<not> run_level (testing_update t)"
  by (simp add: testing_update_def run_level_def)

lemma upt_shift: "[i..<i + Suc n] = i # [Suc i..<Suc i + n]"
  by (simp add: upt_conv_Cons)


text \<open>Without any assumption on the entries: the loop writes no results file, and what it
  adds to the status file is, the executor's own updates apart, the progress of the tools
  it has finished.\<close>

lemma test_loop_frame:
  assumes "test_loop w n i ts s = (res, s')"
  shows "results_files s' = results_files s
     \<and> (\<exists>new k. status_file s' = status_file s @ new \<and> k \<le> length ts
          \<and> filter run_level new = map (\<lambda>j. tested_update (j + 1) n) [i..<i + k]
          \<and> (\<forall>d\<in>set new. \<not> run_level d \<longrightarrow> progress d = 0))"
  using assms
proof (induction ts arbitrary: i s)
  case Nil
  then show ?case by simp
next
  case (Cons t ts)
  obtain r1 s1 where t: "test_tool w t s = (r1, s1)"
    by (cases "test_tool w t s")
  have "\<exists>new1. status_file s1 = status_file s @ new1 \<and> filter run_level new1 = []
      \<and> (\<forall>d\<in>set new1. \<not> run_level d \<longrightarrow> progress d = 0)"
  proof -
    from test_tool_frame [OF t] have "status_file s1 = status_file s \<or> (\<exists>m. status_file s1 = status_file s @
            [\<lparr>run_status = ''running'', progress = 0, run_message = ''Testing '' @ m\<rparr>])"
      by simp
    then show ?thesis
    proof (elim disjE exE)
      assume "status_file s1 = status_file s"
      then show ?thesis by (intro exI [of _ "[]"]) simp
    next
      fix m
      assume "status_file s1 = status_file s @
            [\<lparr>run_status = ''running'', progress = 0, run_message = ''Testing '' @ m\<rparr>]"
      then show ?thesis
        by (intro exI [of _ "[\<lparr>run_status = ''running'', progress = 0, run_message = ''Testing '' @ m\<rparr>]"])
           (simp add: run_level_def)
    qed
  qed
  then obtain new1 where
    s1: "test_results s1 = test_results s" "results_files s1 = results_files s"
      "status_file s1 = status_file s @ new1" "filter run_level new1 = []"
      "\<forall>d\<in>set new1. \<not> run_level d \<longrightarrow> progress d = 0"
    using test_tool_frame [OF t] by blast
  show ?case
  proof (cases r1)
    case (Inl e)
    with Cons.prems t have "s' = s1" by simp
    with s1 show ?thesis
      by (intro conjI exI [of _ new1] exI [of _ 0]) simp_all
  next
    case (Inr r)
    define s2 where "s2 = update_status ''running'' (progress_of i n)
        (''Tested '' @ digits (i + 1) @ ''/'' @ digits n @ '' tools'')
        (s1\<lparr>test_results := test_results s1 @ [r]\<rparr>)"
    have step: "test_loop w n (i + 1) ts s2 = (res, s')"
      using Cons.prems t Inr by (simp add: s2_def)
    have s2: "results_files s2 = results_files s"
      "status_file s2 = status_file s @ new1 @ [tested_update (i + 1) n]"
      by (simp_all add: s2_def s1 tested_update_def)
    from Cons.IH [OF step] obtain new k where
      n: "results_files s' = results_files s2" "status_file s' = status_file s2 @ new" "k \<le> length ts"
        "filter run_level new = map (\<lambda>j. tested_update (j + 1) n) [i + 1..<i + 1 + k]"
        "\<forall>d\<in>set new. \<not> run_level d \<longrightarrow> progress d = 0"
      by blast
    have "[i..<i + Suc k] = i # [i + 1..<i + 1 + k]"
      using upt_shift [of i k] by simp
    then show ?thesis
      using n s2 s1
      by (intro conjI exI [of _ "new1 @ [tested_update (i + 1) n] @ new"] exI [of _ "Suc k"])
         (simp_all del: upt_Suc, blast)
  qed
qed

lemma sorted_map_upt:
  assumes "\<And>a b. a \<le> b \<Longrightarrow> f a \<le> (f b :: int)"
  shows "sorted (map f [i..<j])"
  by (simp add: sorted_map assms sorted_wrt_mono_rel [OF _ sorted_upt])

lemma progress_tested_update [simp]: "progress (tested_update k n) = progress_of (k - 1) n"
  by (simp add: tested_update_def)

lemma find_tool_absent:
  assumes "\<forall>t\<in>set tools. \<exists>v. getitem t ''id'' = Inr v \<and> v \<noteq> PStr tid"
  shows "find_tool tid tools = Inr None"
  using assms by (induction tools) auto



text \<open>A run-one or run-all that has written a results file has gone through
  \<^verbatim>\<open>generate_summary\<close>; before that, the run-level progress values were in order.\<close>

lemma test_single_tool_summary:
  assumes "test_single_tool w tid s = (res, s1)" and "results_files s = []" and "results_files s1 \<noteq> []"
  shows "res = Inr () \<and> (\<exists>s2 new. s1 = generate_summary s2 \<and> results_files s2 = []
     \<and> status_file s2 = status_file s @ new \<and> filter run_level new = []
     \<and> (\<forall>d\<in>set new. progress d = 0))"
proof -
  from assms obtain tools where L: "load_studio_config w = Inr tools"
    by (cases "load_studio_config w") (auto simp: test_single_tool_def)
  from assms L obtain found where F: "find_tool tid tools = Inr found"
    by (cases "find_tool tid tools") (auto simp: test_single_tool_def)
  have nf: "\<not> (found = None \<or> found = Some [])"
    using assms L F by (auto simp: test_single_tool_def split: if_splits)
  obtain r1 s1' where T: "test_tool w (the found) s = (r1, s1')"
    by (cases "test_tool w (the found) s")
  from assms L F nf T obtain r where r: "r1 = Inr r"
    using test_tool_frame [OF T] by (cases r1) (auto simp: test_single_tool_def)
  have s1: "s1 = generate_summary (s1'\<lparr>test_results := test_results s1' @ [r]\<rparr>)" and res: "res = Inr ()"
    using assms L F nf T r by (auto simp: test_single_tool_def)
  from test_tool_frame [OF T] have
    "status_file s1' = status_file s \<or> (\<exists>m. status_file s1' = status_file s @
            [\<lparr>run_status = ''running'', progress = 0, run_message = ''Testing '' @ m\<rparr>])"
    and rf: "results_files s1' = results_files s"
    by simp_all
  then have "\<exists>new. status_file s1' = status_file s @ new \<and> filter run_level new = []
      \<and> (\<forall>d\<in>set new. progress d = 0)"
  proof (elim disjE exE)
    assume "status_file s1' = status_file s"
    then show ?thesis by (intro exI [of _ "[]"]) simp
  next
    fix m
    assume "status_file s1' = status_file s @
            [\<lparr>run_status = ''running'', progress = 0, run_message = ''Testing '' @ m\<rparr>]"
    then show ?thesis
      by (intro exI [of _ "[\<lparr>run_status = ''running'', progress = 0, run_message = ''Testing '' @ m\<rparr>]"])
         (simp add: run_level_def)
  qed
  then obtain new where "status_file s1' = status_file s @ new" "filter run_level new = []"
      "\<forall>d\<in>set new. progress d = 0"
    by blast
  then show ?thesis
    using s1 res rf assms(2)
    by (intro conjI exI [of _ "s1'\<lparr>test_results := test_results s1' @ [r]\<rparr>"] exI [of _ new]) simp_all
qed

lemma test_all_tools_summary:
  assumes "test_all_tools w s = (res, s1)" and "results_files s = []" and "results_files s1 \<noteq> []"
  shows "res = Inr () \<and> (\<exists>s2 new. s1 = generate_summary s2 \<and> results_files s2 = []
     \<and> status_file s2 = status_file s @ new
     \<and> sorted (map progress (filter run_level new))
     \<and> (\<forall>d\<in>set new. progress d \<le> 100 \<and> (\<not> run_level d \<longrightarrow> progress d = 0)))"
proof -
  define s0 where "s0 = update_status ''running'' 0 ''Loading tools...'' s"
  from assms obtain tools where L: "load_studio_config w = Inr tools"
    by (cases "load_studio_config w") (auto simp: test_all_tools_def Let_def)
  have ne: "tools \<noteq> []"
    using assms L by (auto simp: test_all_tools_def Let_def)
  obtain r1 s2 where T: "test_loop w (length tools) 0 tools s0 = (r1, s2)"
    by (cases "test_loop w (length tools) 0 tools s0")
  from test_loop_frame [OF T] obtain new k where
    f: "results_files s2 = results_files s0" "status_file s2 = status_file s0 @ new" "k \<le> length tools"
      "filter run_level new = map (\<lambda>j. tested_update (j + 1) (length tools)) [0..<0 + k]"
      "\<forall>d\<in>set new. \<not> run_level d \<longrightarrow> progress d = 0"
    by blast
  have r1: "r1 = Inr ()"
    using assms L ne T f by (cases r1) (auto simp: test_all_tools_def Let_def s0_def)
  then have s1: "s1 = generate_summary s2" and res: "res = Inr ()"
    using assms L ne T by (auto simp: test_all_tools_def Let_def s0_def)
  have lv: "run_level \<lparr>run_status = ''running'', progress = 0, run_message = ''Loading tools...''\<rparr>"
    by (simp add: run_level_def)
  have srt: "sorted (map progress (filter run_level new))"
    unfolding f(4) map_map comp_def progress_tested_update
    by (rule sorted_map_upt) (simp add: progress_of_mono)
  have nn: "\<forall>d\<in>set (filter run_level new). 0 \<le> progress d \<and> progress d \<le> 100"
    unfolding f(4) using f(3) by (auto simp: progress_of_nonneg progress_of_le_100)
  have bound: "\<forall>d\<in>set new. progress d \<le> 100 \<and> 0 \<le> progress d"
    using nn f(5) by fastforce
  show ?thesis
    using s1 res f(1,2,5) assms(2) lv srt nn bound
    by (intro conjI exI [of _ s2]
        exI [of _ "\<lparr>run_status = ''running'', progress = 0, run_message = ''Loading tools...''\<rparr> # new"])
       (auto simp: s0_def)
qed

lemma run_reaches_summary:
  assumes "results_files (snd (run w a init)) \<noteq> []"
  shows "\<exists>s2. snd (run w a init) = generate_summary s2 \<and> results_files s2 = []
     \<and> fst (run w a init) = (if count_status ''fail'' (test_results s2) = 0 then 0 else 1)
     \<and> sorted (map progress (filter run_level (status_file s2)))
     \<and> (\<forall>d\<in>set (status_file s2). progress d \<le> 100 \<and> (\<not> run_level d \<longrightarrow> progress d = 0))"
proof -
  have i: "results_files init = []" "status_file init = []"
    by (simp_all add: init_def)
  have nt: "\<not> test a"
    using assms by (auto simp: run_def i)
  show ?thesis
  proof (cases "tool a \<noteq> None \<and> tool a \<noteq> Some ''''")
    case True
    obtain res s1 where m: "test_single_tool w (the (tool a)) init = (res, s1)"
      by (cases "test_single_tool w (the (tool a)) init")
    have "results_files s1 \<noteq> []"
      using assms nt True m by (cases res) (auto simp: run_def)
    from test_single_tool_summary [OF m i(1) this] obtain s2 new where
      "res = Inr ()" "s1 = generate_summary s2" "results_files s2 = []"
      "status_file s2 = status_file init @ new" "filter run_level new = []" "\<forall>d\<in>set new. progress d = 0"
      by blast
    then show ?thesis
      using nt True m by (intro exI [of _ s2]) (auto simp: run_def i)
  next
    case False
    obtain res s1 where m: "test_all_tools w init = (res, s1)"
      by (cases "test_all_tools w init")
    have "results_files s1 \<noteq> []"
      using assms nt False m by (cases res) (auto simp: run_def)
    from test_all_tools_summary [OF m i(1) this] obtain s2 new where
      "res = Inr ()" "s1 = generate_summary s2" "results_files s2 = []"
      "status_file s2 = status_file init @ new" "sorted (map progress (filter run_level new))"
      "\<forall>d\<in>set new. progress d \<le> 100 \<and> (\<not> run_level d \<longrightarrow> progress d = 0)"
      by blast
    then show ?thesis
      using nt False m by (intro exI [of _ s2]) (auto simp: run_def i)
  qed
qed

section \<open>The two modes and the completion code\<close>



lemma run_single_tool:
  "tid \<noteq> '''' \<Longrightarrow> run w (single_tool tid) s =
     (case test_single_tool w tid s of
        (Inl e, s') \<Rightarrow> (1, update_status ''error'' 0 (exc_str e) s')
      | (Inr u, s') \<Rightarrow> (if count_status ''fail'' (test_results s') = 0 then 0 else 1, s'))"
  by (simp add: run_def single_tool_def Let_def split: prod.splits sum.splits)



lemmas run_simps =
  run_def full_suite_def single_tool_def test_all_tools_def test_single_tool_def
  load_studio_config_def generate_summary_def count_status_def test_tool_unfold
  sample_world_def entry_def getitem_def init_def mk_path_def str_int_def digits.simps

lemma progress_values:
  "progress_of 0 2 = 50" "progress_of 1 2 = 100"
  "progress_of 0 3 = 33" "progress_of 1 3 = 66" "progress_of 2 3 = 100"
  by code_simp+

lemma progress_values_Suc:
  "progress_of 0 (Suc (Suc 0)) = 50" "progress_of (Suc 0) (Suc (Suc 0)) = 100"
  "progress_of 0 (Suc (Suc (Suc 0))) = 33" "progress_of (Suc 0) (Suc (Suc (Suc 0))) = 66"
  "progress_of (Suc (Suc 0)) (Suc (Suc (Suc 0))) = 100"
  using progress_values by (simp_all add: numeral_2_eq_2 numeral_3_eq_3)

text \<open>
  Claim C1 fails as stated: with an id that no manifest entry has, the run ends with status
  \<open>error\<close>, a message naming the id and no result, but the completion code is 0.
\<close>

theorem unknown_tool_counterexample:
  "find_tool ''ghost'' [entry ''good'', entry ''bad''] = Inr None
   \<and> run sample_world (single_tool ''ghost'') init =
       (0, \<lparr>test_results = [],
            status_file = [\<lparr>run_status = ''error'', progress = 0,
                            run_message = ''Tool '' @ [CHR 0x27] @ ''ghost'' @ [CHR 0x27] @ '' not found''\<rparr>],
            results_files = [], events = []\<rparr>)"
  by (simp add: run_simps)

text \<open>
  Claim C1, amended. In single-tool mode, when every manifest entry has an \<^verbatim>\<open>id\<close> and none
  is the requested one, the run writes the status \<open>error\<close> with a message naming the id,
  produces no result and no results file, and returns the completion code 0.
\<close>

theorem unknown_tool_id:
  assumes "tid \<noteq> ''''" and "load_studio_config w = Inr tools"
    and "\<forall>t\<in>set tools. \<exists>v. getitem t ''id'' = Inr v \<and> v \<noteq> PStr tid"
  shows "fst (run w (single_tool tid) init) = 0
     \<and> test_results (snd (run w (single_tool tid) init)) = []
     \<and> results_files (snd (run w (single_tool tid) init)) = []
     \<and> status_file (snd (run w (single_tool tid) init)) =
         [\<lparr>run_status = ''error'', progress = 0,
           run_message = ''Tool '' @ [CHR 0x27] @ tid @ [CHR 0x27] @ '' not found''\<rparr>]"
  using assms find_tool_absent [OF assms(3)]
  by (simp add: run_single_tool test_single_tool_def count_status_def init_def)

theorem unknown_tool_id_witness:
  "fst (run sample_world (single_tool ''nosuch'') init) = 0
   \<and> test_results (snd (run sample_world (single_tool ''nosuch'') init)) = []
   \<and> results_files (snd (run sample_world (single_tool ''nosuch'') init)) = []
   \<and> status_file (snd (run sample_world (single_tool ''nosuch'') init)) =
         [\<lparr>run_status = ''error'', progress = 0,
           run_message = ''Tool '' @ [CHR 0x27] @ ''nosuch'' @ [CHR 0x27] @ '' not found''\<rparr>]"
  using unknown_tool_id [of "''nosuch''" sample_world "[entry ''good'', entry ''bad'']"]
  by (simp add: load_studio_config_def sample_world_def entry_def getitem_def)

text \<open>
  Claim C2 fails as stated: in a full-suite run over two tools the progress values written
  are 0, 0, 50, 0, 100, 100. The executor writes 0 before each tool.
\<close>

theorem progress_not_monotone_counterexample:
  "map progress (status_file (snd (run sample_world full_suite init))) = [0, 0, 50, 0, 100, 100]
   \<and> \<not> sorted (map progress (status_file (snd (run sample_world full_suite init))))"
  by (simp add: run_simps progress_values_Suc)

text \<open>
  Claim C2, amended. In a run that reaches summary generation (one that writes a results
  file), the progress values of the run-level updates are non-decreasing, every other
  update is the executor's own and writes 0, and the last update has progress exactly 100.
\<close>

theorem run_level_progress_monotone:
  assumes "results_files (snd (run w a init)) \<noteq> []"
  shows "sorted (map progress (filter run_level (status_file (snd (run w a init)))))
     \<and> (\<forall>d\<in>set (status_file (snd (run w a init))). \<not> run_level d \<longrightarrow> progress d = 0)
     \<and> progress (last (status_file (snd (run w a init)))) = 100"
proof -
  from run_reaches_summary [OF assms] obtain s2 where
    s: "snd (run w a init) = generate_summary s2"
      "sorted (map progress (filter run_level (status_file s2)))"
      "\<forall>d\<in>set (status_file s2). progress d \<le> 100 \<and> (\<not> run_level d \<longrightarrow> progress d = 0)"
    by blast
  show ?thesis
    unfolding s(1) generate_summary_status
    using s(2,3) by (auto simp: sorted_append run_level_digits) (simp_all add: run_level_def)
qed

theorem run_level_progress_monotone_witness:
  "results_files (snd (run sample_world full_suite init)) \<noteq> []
   \<and> sorted (map progress (filter run_level (status_file (snd (run sample_world full_suite init)))))
   \<and> progress (last (status_file (snd (run sample_world full_suite init)))) = 100"
proof -
  have h: "results_files (snd (run sample_world full_suite init)) \<noteq> []"
    by (simp add: run_simps progress_values_Suc)
  from run_level_progress_monotone [OF h] h show ?thesis by simp
qed

text \<open>
  Claim C5 fails as stated: a full-suite run on an empty manifest has no \<open>fail\<close> result, and
  its last status is \<open>error\<close> with progress 0, not \<open>completed\<close> with progress 100.
\<close>

theorem terminal_outcome_counterexample:
  "count_status ''fail''
     (test_results (snd (run (sample_world\<lparr>studio_config := Document []\<rparr>) full_suite init))) = 0
   \<and> last (status_file (snd (run (sample_world\<lparr>studio_config := Document []\<rparr>) full_suite init))) =
       \<lparr>run_status = ''error'', progress = 0, run_message = ''No tools to test''\<rparr>"
  by (simp add: run_simps)

text \<open>
  Claim C5, amended. At the end of a run that reaches summary generation (one that writes a
  results file), the outcome is decided by the \<open>fail\<close> results alone: the last status is
  \<open>completed\<close> when no result has status \<open>fail\<close> and \<open>completed_with_errors\<close> otherwise,
  with progress 100 and a message giving the counts; the completion code is 0 when no result
  has status \<open>fail\<close> and 1 otherwise; the results file holds the results of the run.
\<close>

theorem summary_outcome:
  assumes "results_files (snd (run w a init)) \<noteq> []"
  shows "last (status_file (snd (run w a init))) =
       (if count_status ''fail'' (test_results (snd (run w a init))) = 0
        then \<lparr>run_status = ''completed'', progress = 100,
              run_message = ''All '' @ digits (count_status ''pass'' (test_results (snd (run w a init))))
                @ '' tests passed''\<rparr>
        else \<lparr>run_status = ''completed_with_errors'', progress = 100,
              run_message = digits (count_status ''pass'' (test_results (snd (run w a init))))
                @ '' passed, '' @ digits (count_status ''fail'' (test_results (snd (run w a init))))
                @ '' failed''\<rparr>)
     \<and> fst (run w a init) =
       (if count_status ''fail'' (test_results (snd (run w a init))) = 0 then 0 else 1)
     \<and> results_files (snd (run w a init)) = [test_results (snd (run w a init))]"
proof -
  from run_reaches_summary [OF assms] obtain s2 where
    s: "snd (run w a init) = generate_summary s2" "results_files s2 = []"
      "fst (run w a init) = (if count_status ''fail'' (test_results s2) = 0 then 0 else 1)"
    by blast
  show ?thesis
    unfolding s(1) s(3) generate_summary_status
    using s(2) by simp
qed

theorem summary_outcome_witness:
  "results_files (snd (run sample_world full_suite init)) \<noteq> []
   \<and> last (status_file (snd (run sample_world full_suite init))) =
       \<lparr>run_status = ''completed_with_errors'', progress = 100, run_message = ''1 passed, 1 failed''\<rparr>
   \<and> fst (run sample_world full_suite init) = 1
   \<and> results_files (snd (run sample_world (single_tool ''good'') init)) \<noteq> []
   \<and> last (status_file (snd (run sample_world (single_tool ''good'') init))) =
       \<lparr>run_status = ''completed'', progress = 100, run_message = ''All 1 tests passed''\<rparr>
   \<and> fst (run sample_world (single_tool ''good'') init) = 0"
proof -
  have h: "results_files (snd (run sample_world full_suite init)) \<noteq> []"
    by (simp add: run_simps progress_values_Suc)
  have c: "count_status ''fail'' (test_results (snd (run sample_world full_suite init))) = 1"
    "count_status ''pass'' (test_results (snd (run sample_world full_suite init))) = 1"
    by (simp_all add: run_simps progress_values_Suc)
  have h': "results_files (snd (run sample_world (single_tool ''good'') init)) \<noteq> []"
    by (simp add: run_simps)
  have c': "count_status ''fail'' (test_results (snd (run sample_world (single_tool ''good'') init))) = 0"
    "count_status ''pass'' (test_results (snd (run sample_world (single_tool ''good'') init))) = 1"
    by (simp_all add: run_simps)
  from summary_outcome [OF h] summary_outcome [OF h'] h h' show ?thesis
    unfolding c c' by (simp add: digits.simps)
qed









end
